theory Spec2Isabelle
  imports Complex_Main
begin

section \<open>Data model (src/types/game.ts)\<close>

text \<open>
  A TypeScript \<open>number\<close> is modelled as a real number: arithmetic is exact, there is no
  rounding, no \<open>NaN\<close> and no infinity. Objects are modelled by value; the in-place
  mutation of the source becomes a function from the old state to the new one. This
  agrees with the source as long as no object occurs twice in a collection, which holds
  for the objects the factory and the shoot action create. The field \<open>size\<close> is
  written \<open>size'\<close>, since \<open>size\<close> is a constant of HOL.
\<close>

type_synonym number = real

record Point =
  x :: number
  y :: number

record GameObject =
  position :: Point
  velocity :: Point
  rotation :: number
  size' :: number

record Asteroid = GameObject +
  vertices :: "Point list"

record Ship = GameObject +
  thrusting :: bool

record Bullet = GameObject +
  lifespan :: number

record GameState =
  ship :: Ship
  asteroids :: "Asteroid list"
  bullets :: "Bullet list"
  score :: number
  lives :: number
  gameOver :: bool

section \<open>Arithmetic of the host language\<close>

text \<open>
  The remainder operator \<open>a % b\<close> of JavaScript truncates the quotient towards zero, so
  the result has the sign of the dividend \<open>a\<close>. For \<open>b = 0\<close> JavaScript yields
  \<open>NaN\<close>, which a real number cannot express; the model then returns \<open>a\<close>, and every
  statement about wrapped positions assumes positive arena dimensions.
\<close>

definition js_rem :: "number \<Rightarrow> number \<Rightarrow> number" where
  "js_rem a b = a - b * of_int (if 0 \<le> a / b then \<lfloor>a / b\<rfloor> else \<lceil>a / b\<rceil>)"

text \<open>
  \<open>Math.random()\<close> is modelled by the sequence \<open>rnd\<close> of the values that successive
  calls return, and a counter \<open>k\<close> of the calls made so far; a function that draws random
  numbers returns the advanced counter with its result.
\<close>

type_synonym random = "nat \<Rightarrow> number"

section \<open>Entity factory (gameUtils)\<close>

definition createShip :: "number \<Rightarrow> number \<Rightarrow> Ship" where
  "createShip px py =
     \<lparr>position = \<lparr>x = px, y = py\<rparr>, velocity = \<lparr>x = 0, y = 0\<rparr>,
      rotation = 0, size' = 20, thrusting = False\<rparr>"

definition createAsteroid :: "random \<Rightarrow> nat \<Rightarrow> number \<Rightarrow> number \<Rightarrow> Asteroid \<times> nat" where
  "createAsteroid rnd k canvasWidth canvasHeight =
     (let sz = rnd k * 30 + 20;
          numVertices = \<lfloor>rnd (k + 1) * 5\<rfloor> + 7;
          vs = map (\<lambda>i.
                 let angle = (real i / of_int numVertices) * pi * 2;
                     variance = rnd (k + 2 + i) * 0.4 + 0.8
                 in \<lparr>x = cos angle * sz * variance, y = sin angle * sz * variance\<rparr>)
               [0 ..< nat numVertices];
          j = k + 2 + nat numVertices
      in (\<lparr>position = \<lparr>x = rnd j * canvasWidth, y = rnd (j + 1) * canvasHeight\<rparr>,
           velocity = \<lparr>x = (rnd (j + 2) - 0.5) * 2, y = (rnd (j + 3) - 0.5) * 2\<rparr>,
           rotation = rnd (j + 4) * pi * 2,
           size' = sz,
           vertices = vs\<rparr>,
          j + 5))"

text \<open>\<open>Array.from({ length: n }, () => createAsteroid(w, h))\<close>: \<open>n\<close> calls in sequence.\<close>

primrec createAsteroids :: "random \<Rightarrow> nat \<Rightarrow> nat \<Rightarrow> number \<Rightarrow> number \<Rightarrow> Asteroid list \<times> nat" where
  "createAsteroids rnd k 0 w h = ([], k)"
| "createAsteroids rnd k (Suc n) w h =
     (let (a, k1) = createAsteroid rnd k w h;
          (as, k2) = createAsteroids rnd k1 n w h
      in (a # as, k2))"

section \<open>Motion integrator (gameUtils.updateGameObjects)\<close>

text \<open>
  The ship block of \<open>updateGameObjects\<close>, in three parts: the velocity after thrust and
  friction, the speed \<open>Math.sqrt(v.x * v.x + v.y * v.y)\<close>, and the speed limit followed
  by the move and the wrap.
\<close>

definition thrustAndFriction :: "Ship \<Rightarrow> Point" where
  "thrustAndFriction sh =
     (let thrustPower = 0.1;
          v1 = (if thrusting sh
                then \<lparr>x = x (velocity sh) + cos (rotation sh) * thrustPower,
                      y = y (velocity sh) + sin (rotation sh) * thrustPower\<rparr>
                else velocity sh);
          friction = 0.99
      in \<lparr>x = x v1 * friction, y = y v1 * friction\<rparr>)"

definition magnitude :: "Point \<Rightarrow> number" where
  "magnitude v = sqrt (x v * x v + y v * y v)"

definition updateShip :: "Ship \<Rightarrow> number \<Rightarrow> number \<Rightarrow> Ship" where
  "updateShip sh width height =
     (let maxSpeed = 5;
          v2 = thrustAndFriction sh;
          speed = magnitude v2;
          v3 = (if speed > maxSpeed
                then \<lparr>x = x v2 * (maxSpeed / speed), y = y v2 * (maxSpeed / speed)\<rparr>
                else v2);
          p1 = \<lparr>x = x (position sh) + x v3, y = y (position sh) + y v3\<rparr>;
          p2 = \<lparr>x = js_rem (x p1 + width) width, y = js_rem (y p1 + height) height\<rparr>
      in sh\<lparr>position := p2, velocity := v3\<rparr>)"

text \<open>The callback of \<open>asteroids.map\<close>.\<close>

definition updateAsteroid :: "number \<Rightarrow> number \<Rightarrow> Asteroid \<Rightarrow> Asteroid" where
  "updateAsteroid width height a =
     (let p1 = \<lparr>x = x (position a) + x (velocity a), y = y (position a) + y (velocity a)\<rparr>;
          p2 = \<lparr>x = js_rem (x p1 + width) width, y = js_rem (y p1 + height) height\<rparr>
      in a\<lparr>position := p2, rotation := rotation a + 0.02\<rparr>)"

text \<open>The callback of \<open>bullets.map\<close>.\<close>

definition updateBullet :: "number \<Rightarrow> number \<Rightarrow> Bullet \<Rightarrow> Bullet" where
  "updateBullet width height b =
     (let p1 = \<lparr>x = x (position b) + x (velocity b), y = y (position b) + y (velocity b)\<rparr>;
          p2 = \<lparr>x = js_rem (x p1 + width) width, y = js_rem (y p1 + height) height\<rparr>
      in b\<lparr>position := p2, lifespan := lifespan b - 1\<rparr>)"

definition updateGameObjects :: "GameState \<Rightarrow> number \<Rightarrow> number \<Rightarrow> GameState" where
  "updateGameObjects state width height =
     (let updatedAsteroids = map (updateAsteroid width height) (asteroids state);
          updatedBullets =
            filter (\<lambda>b. lifespan b > 0) (map (updateBullet width height) (bullets state))
      in state\<lparr>ship := updateShip (ship state) width height,
               asteroids := updatedAsteroids,
               bullets := updatedBullets\<rparr>)"

section \<open>Collision resolver (gameUtils.handleCollisions)\<close>

text \<open>
  The distance and the sum of the sizes are computed in exact real arithmetic. The source
  rounds every operation to a double, so at inputs where the two sides differ by less
  than the rounding error its answer can differ from this one.
\<close>

definition checkCollision :: "'a GameObject_scheme \<Rightarrow> Asteroid \<Rightarrow> bool" where
  "checkCollision obj1 asteroid =
     (let distance = sqrt ((x (position obj1) - x (position asteroid)) ^ 2 +
                           (y (position obj1) - y (position asteroid)) ^ 2)
      in distance < size' obj1 + size' asteroid)"

text \<open>\<open>bullets.some(bullet => checkCollision(bullet, asteroid))\<close>.\<close>

definition hitByBullet :: "Bullet list \<Rightarrow> Asteroid \<Rightarrow> bool" where
  "hitByBullet bs asteroid = list_ex (\<lambda>bullet. checkCollision bullet asteroid) bs"

text \<open>\<open>asteroids.some(asteroid => checkCollision(ship, asteroid))\<close>.\<close>

definition hasCollision :: "GameState \<Rightarrow> bool" where
  "hasCollision state = list_ex (\<lambda>asteroid. checkCollision (ship state) asteroid) (asteroids state)"

text \<open>
  The callback of \<open>asteroids.filter\<close> adds 100 to \<open>newScore\<close> for every asteroid it
  drops; the model threads the score through the traversal.
\<close>

fun filterAsteroids :: "Bullet list \<Rightarrow> Asteroid list \<Rightarrow> number \<Rightarrow> Asteroid list \<times> number" where
  "filterAsteroids bs [] newScore = ([], newScore)"
| "filterAsteroids bs (a # as) newScore =
     (let hit = hitByBullet bs a;
          newScore1 = (if hit then newScore + 100 else newScore);
          (rest, newScore2) = filterAsteroids bs as newScore1
      in (if hit then rest else a # rest, newScore2))"

text \<open>
  The ship is reset in place before the state is copied, so the returned state carries
  the reset ship. The flag \<open>gameOver\<close> starts from \<open>false\<close> in every call.
\<close>

definition handleCollisions :: "random \<Rightarrow> nat \<Rightarrow> GameState \<Rightarrow> GameState \<times> nat" where
  "handleCollisions rnd k state =
     (let newLives = (if hasCollision state then lives state - 1 else lives state);
          gameOver1 = (hasCollision state \<and> newLives \<le> 0);
          ship1 = (if hasCollision state \<and> \<not> newLives \<le> 0
                   then (ship state)\<lparr>position := \<lparr>x = 400, y = 300\<rparr>,
                                      velocity := \<lparr>x = 0, y = 0\<rparr>,
                                      rotation := 0\<rparr>
                   else ship state);
          (remainingAsteroids, newScore) =
             filterAsteroids (bullets state) (asteroids state) (score state)
      in if length remainingAsteroids = 0
         then (let (fresh, k1) = createAsteroids rnd k 5 800 600
               in (state\<lparr>ship := ship1, asteroids := fresh, score := newScore,
                         lives := newLives, gameOver := gameOver1\<rparr>, k1))
         else (state\<lparr>ship := ship1, asteroids := remainingAsteroids, score := newScore,
                     lives := newLives, gameOver := gameOver1\<rparr>, k))"

section \<open>Simulation driver (components/Game, the state updater of the game loop)\<close>

text \<open>
  The updater passed to \<open>setGameState\<close> in the game loop: \<open>keys\<close> is the set of keys held,
  \<open>deltaTime\<close> the elapsed time in frames. It computes \<open>finalState\<close>, draws it and
  returns it. Drawing changes no state, but it can raise, and then the updater returns
  nothing.
\<close>

definition ROTATION_SPEED :: number where
  "ROTATION_SPEED = 0.1"

definition CANVAS_WIDTH :: number where
  "CANVAS_WIDTH = 800"

definition CANVAS_HEIGHT :: number where
  "CANVAS_HEIGHT = 600"

text \<open>The input block of the updater: a copy of the ship, turned and with its thrust flag set.\<close>

definition steerShip :: "string set \<Rightarrow> number \<Rightarrow> Ship \<Rightarrow> Ship" where
  "steerShip keys deltaTime sh =
     (let s1 = (if ''ArrowLeft'' \<in> keys
                then sh\<lparr>rotation := rotation sh - ROTATION_SPEED * deltaTime\<rparr> else sh);
          s2 = (if ''ArrowRight'' \<in> keys
                then s1\<lparr>rotation := rotation s1 + ROTATION_SPEED * deltaTime\<rparr> else s1)
      in s2\<lparr>thrusting := (''ArrowUp'' \<in> keys)\<rparr>)"

text \<open>The state \<open>finalState\<close> of the updater, with the advanced counter of random draws.\<close>

definition gameLoopStep :: "random \<Rightarrow> nat \<Rightarrow> string set \<Rightarrow> number \<Rightarrow> GameState \<Rightarrow> GameState \<times> nat" where
  "gameLoopStep rnd k keys deltaTime prevState =
     (let newShip = steerShip keys deltaTime (ship prevState);
          updatedState =
            updateGameObjects (prevState\<lparr>ship := newShip\<rparr>) CANVAS_WIDTH CANVAS_HEIGHT
      in if gameOver prevState then (updatedState, k) else handleCollisions rnd k updatedState)"

text \<open>
  \<open>drawGame\<close> reads \<open>asteroid.vertices[0].x\<close> for every asteroid it draws, which raises
  a \<open>TypeError\<close> when an asteroid has no vertex. Nothing else in it can raise.
\<close>

definition drawGameThrows :: "GameState \<Rightarrow> bool" where
  "drawGameThrows state = list_ex (\<lambda>asteroid. vertices asteroid = []) (asteroids state)"

text \<open>The whole updater: \<open>None\<close> when the draw raises, otherwise the state it returns.\<close>

definition gameLoopUpdater ::
  "random \<Rightarrow> nat \<Rightarrow> string set \<Rightarrow> number \<Rightarrow> GameState \<Rightarrow> (GameState \<times> nat) option" where
  "gameLoopUpdater rnd k keys deltaTime prevState =
     (let final = gameLoopStep rnd k keys deltaTime prevState
      in if drawGameThrows (fst final) then None else Some final)"

section \<open>Vocabulary of the statements and concrete states\<close>

text \<open>The position of an object lies inside the arena \<open>[0, width) \<times> [0, height)\<close>.\<close>

definition inArena :: "'a GameObject_scheme \<Rightarrow> number \<Rightarrow> number \<Rightarrow> bool" where
  "inArena obj width height =
     (0 \<le> x (position obj) \<and> x (position obj) < width \<and>
      0 \<le> y (position obj) \<and> y (position obj) < height)"

text \<open>
  The value an asteroid or bullet has before the wrap, position plus velocity, is not
  below minus the arena dimension on either axis.
\<close>

definition preWrapAbove :: "'a GameObject_scheme \<Rightarrow> number \<Rightarrow> number \<Rightarrow> bool" where
  "preWrapAbove obj width height =
     (- width \<le> x (position obj) + x (velocity obj) \<and>
      - height \<le> y (position obj) + y (velocity obj))"

text \<open>A resting ship far to the left of an 800 by 600 arena.\<close>

definition far_left_state :: GameState where
  "far_left_state =
     \<lparr>ship = \<lparr>position = \<lparr>x = - 2000, y = 0\<rparr>, velocity = \<lparr>x = 0, y = 0\<rparr>,
              rotation = 0, size' = 20, thrusting = False\<rparr>,
      asteroids = [], bullets = [], score = 0, lives = 3, gameOver = False\<rparr>"


text \<open>A random source whose every draw is one half.\<close>

definition half_random :: random where
  "half_random n = 1 / 2"

text \<open>
  A thrusting, moving ship at the exact position of the only asteroid, with \<open>n\<close> lives.
\<close>

definition ship_on_asteroid :: "number \<Rightarrow> GameState" where
  "ship_on_asteroid n =
     \<lparr>ship = \<lparr>position = \<lparr>x = 100, y = 200\<rparr>, velocity = \<lparr>x = 3, y = - 4\<rparr>,
              rotation = 1, size' = 20, thrusting = True\<rparr>,
      asteroids = [\<lparr>position = \<lparr>x = 100, y = 200\<rparr>, velocity = \<lparr>x = 1, y = 0\<rparr>,
                    rotation = 0, size' = 30, vertices = []\<rparr>],
      bullets = [], score = 0, lives = n, gameOver = False\<rparr>"

text \<open>
  A state whose game is over, with 700 points and no life, whose ship is far from the only
  asteroid, which drifts to the right.
\<close>

definition over_but_clear :: GameState where
  "over_but_clear =
     \<lparr>ship = \<lparr>position = \<lparr>x = 100, y = 200\<rparr>, velocity = \<lparr>x = 0, y = 0\<rparr>,
              rotation = 0, size' = 20, thrusting = False\<rparr>,
      asteroids = [\<lparr>position = \<lparr>x = 500, y = 400\<rparr>, velocity = \<lparr>x = 1, y = 0\<rparr>,
                    rotation = 0, size' = 30, vertices = []\<rparr>],
      bullets = [], score = 700, lives = 0, gameOver = True\<rparr>"

text \<open>One bullet between two asteroids that both overlap it; the ship is far away.\<close>

definition one_bullet_two_asteroids :: GameState where
  "one_bullet_two_asteroids =
     \<lparr>ship = \<lparr>position = \<lparr>x = 400, y = 300\<rparr>, velocity = \<lparr>x = 0, y = 0\<rparr>,
              rotation = 0, size' = 20, thrusting = False\<rparr>,
      asteroids = [\<lparr>position = \<lparr>x = 100, y = 100\<rparr>, velocity = \<lparr>x = 1, y = 0\<rparr>,
                    rotation = 0, size' = 30, vertices = []\<rparr>,
                   \<lparr>position = \<lparr>x = 110, y = 100\<rparr>, velocity = \<lparr>x = 0, y = 1\<rparr>,
                    rotation = 0, size' = 25, vertices = []\<rparr>],
      bullets = [\<lparr>position = \<lparr>x = 105, y = 100\<rparr>, velocity = \<lparr>x = 7, y = 0\<rparr>,
                  rotation = 0, size' = 2, lifespan = 30\<rparr>],
      score = 300, lives = 3, gameOver = False\<rparr>"


text \<open>A single bullet with life span \<open>n\<close>.\<close>

definition one_bullet_state :: "number \<Rightarrow> GameState" where
  "one_bullet_state n =
     \<lparr>ship = \<lparr>position = \<lparr>x = 400, y = 300\<rparr>, velocity = \<lparr>x = 0, y = 0\<rparr>,
              rotation = 0, size' = 20, thrusting = False\<rparr>,
      asteroids = [],
      bullets = [\<lparr>position = \<lparr>x = 400, y = 300\<rparr>, velocity = \<lparr>x = 7, y = 0\<rparr>,
                  rotation = 0, size' = 2, lifespan = n\<rparr>],
      score = 0, lives = 3, gameOver = False\<rparr>"

text \<open>\<open>n\<close> ticks of the integrator in an arena of the given size.\<close>

primrec ticks :: "number \<Rightarrow> number \<Rightarrow> nat \<Rightarrow> GameState \<Rightarrow> GameState" where
  "ticks width height 0 s = s"
| "ticks width height (Suc n) s = updateGameObjects (ticks width height n s) width height"

text \<open>
  Two asteroids and two bullets: the first asteroid is far to the left of the arena and
  the second about to cross an edge; the first bullet is far out and lives on, the second
  expires in the next tick, the third is about to cross an edge.
\<close>

definition mixed_state :: GameState where
  "mixed_state =
     \<lparr>ship = \<lparr>position = \<lparr>x = - 5, y = 0\<rparr>, velocity = \<lparr>x = 0, y = 0\<rparr>,
              rotation = 0, size' = 20, thrusting = False\<rparr>,
      asteroids = [\<lparr>position = \<lparr>x = - 2000, y = 5\<rparr>, velocity = \<lparr>x = 0, y = 0\<rparr>,
                    rotation = 0, size' = 30, vertices = []\<rparr>,
                   \<lparr>position = \<lparr>x = - 3, y = 5\<rparr>, velocity = \<lparr>x = - 1, y = - 10\<rparr>,
                    rotation = 0, size' = 30, vertices = []\<rparr>],
      bullets = [\<lparr>position = \<lparr>x = - 2000, y = 0\<rparr>, velocity = \<lparr>x = 7, y = 0\<rparr>,
                  rotation = 0, size' = 2, lifespan = 50\<rparr>,
                 \<lparr>position = \<lparr>x = 10, y = 10\<rparr>, velocity = \<lparr>x = 7, y = 0\<rparr>,
                  rotation = 0, size' = 2, lifespan = 1\<rparr>,
                 \<lparr>position = \<lparr>x = 795, y = 300\<rparr>, velocity = \<lparr>x = 7, y = 0\<rparr>,
                  rotation = 0, size' = 2, lifespan = 60\<rparr>],
      score = 0, lives = 3, gameOver = False\<rparr>"

text \<open>
  A state the driver can hold after the last life is lost: the game is over, with 700
  points, and the only asteroid, a polygon of seven vertices, drifts to the right.
\<close>

definition game_over_state :: GameState where
  "game_over_state =
     \<lparr>ship = \<lparr>position = \<lparr>x = 100, y = 200\<rparr>, velocity = \<lparr>x = 0, y = 0\<rparr>,
              rotation = 0, size' = 20, thrusting = False\<rparr>,
      asteroids = [\<lparr>position = \<lparr>x = 500, y = 400\<rparr>, velocity = \<lparr>x = 1, y = 0\<rparr>,
                    rotation = 0, size' = 30,
                    vertices = [\<lparr>x = 30, y = 0\<rparr>, \<lparr>x = 19, y = 23\<rparr>, \<lparr>x = - 7, y = 29\<rparr>,
                                \<lparr>x = - 27, y = 13\<rparr>, \<lparr>x = - 27, y = - 13\<rparr>,
                                \<lparr>x = - 7, y = - 29\<rparr>, \<lparr>x = 19, y = - 23\<rparr>]\<rparr>],
      bullets = [], score = 700, lives = 0, gameOver = True\<rparr>"

section \<open>Verified properties\<close>

lemma js_rem_nonneg_range:
  assumes "0 < d" and "0 \<le> a"
  shows "0 \<le> js_rem a d \<and> js_rem a d < d"
proof -
  have q: "0 \<le> a / d" using assms by simp
  have eq: "js_rem a d = a - d * of_int \<lfloor>a / d\<rfloor>" using q by (simp add: js_rem_def)
  have "of_int \<lfloor>a / d\<rfloor> * d \<le> a"
    using assms(1) by (rule floor_divide_lower)
  moreover have "a < (of_int \<lfloor>a / d\<rfloor> + 1) * d"
    using assms(1) by (rule floor_divide_upper)
  ultimately show ?thesis unfolding eq by (simp add: algebra_simps)
qed

lemma wrap_range:
  assumes "0 < d" and "- d \<le> p"
  shows "0 \<le> js_rem (p + d) d \<and> js_rem (p + d) d < d"
  using assms by (intro js_rem_nonneg_range) simp_all

lemma updateShip_position:
  "position (updateShip sh w h) =
     \<lparr>x = js_rem (x (position sh) + x (velocity (updateShip sh w h)) + w) w,
      y = js_rem (y (position sh) + y (velocity (updateShip sh w h)) + h) h\<rparr>"
  by (simp add: updateShip_def Let_def)

lemma updateAsteroid_inArena:
  assumes "0 < w" and "0 < h" and "preWrapAbove a w h"
  shows "inArena (updateAsteroid w h a) w h"
  using assms wrap_range [of w "x (position a) + x (velocity a)"]
    wrap_range [of h "y (position a) + y (velocity a)"]
  by (simp add: inArena_def preWrapAbove_def updateAsteroid_def Let_def)

lemma updateBullet_inArena:
  assumes "0 < w" and "0 < h" and "preWrapAbove b w h"
  shows "inArena (updateBullet w h b) w h"
  using assms wrap_range [of w "x (position b) + x (velocity b)"]
    wrap_range [of h "y (position b) + y (velocity b)"]
  by (simp add: inArena_def preWrapAbove_def updateBullet_def Let_def)

lemma updateShip_inArena:
  assumes "0 < w" and "0 < h"
    and "- w \<le> x (position sh) + x (velocity (updateShip sh w h))"
    and "- h \<le> y (position sh) + y (velocity (updateShip sh w h))"
  shows "inArena (updateShip sh w h) w h"
proof -
  let ?v = "velocity (updateShip sh w h)"
  have px: "x (position (updateShip sh w h)) = js_rem (x (position sh) + x ?v + w) w"
    by (subst updateShip_position) simp
  have py: "y (position (updateShip sh w h)) = js_rem (y (position sh) + y ?v + h) h"
    by (subst updateShip_position) simp
  show ?thesis
    unfolding inArena_def px py
    using wrap_range [OF assms(1) assms(3)] wrap_range [OF assms(2) assms(4)] by simp
qed

subsection \<open>Wraparound\<close>

text \<open>
  C1, as stated, fails: the wrap adds the dimension once before taking the truncating
  remainder, so a pre-wrap value below minus the dimension stays negative. A resting ship
  at \<open>x = -2000\<close> in an arena of width 800 ends the tick at \<open>x = -400\<close>.
\<close>

theorem wrap_far_negative_counterexample:
  "x (position (ship (updateGameObjects far_left_state 800 600))) = - 400 \<and>
   \<not> inArena (ship (updateGameObjects far_left_state 800 600)) 800 600"
  by (simp add: far_left_state_def updateGameObjects_def updateShip_def thrustAndFriction_def
      magnitude_def js_rem_def inArena_def)

lemma updateGameObjects_keeps_bullets:
  "bullets (updateGameObjects s w h) =
     map (updateBullet w h) (filter (\<lambda>b. 0 < lifespan b - 1) (bullets s))"
  by (simp add: updateGameObjects_def Let_def filter_map comp_def updateBullet_def)

lemma updateGameObjects_maps_asteroids:
  "asteroids (updateGameObjects s w h) = map (updateAsteroid w h) (asteroids s)"
  by (simp add: updateGameObjects_def Let_def)

text \<open>
  C1, amended: for positive arena dimensions, every object whose pre-wrap value (its
  position plus the velocity added in this tick) is at least minus the dimension on each
  axis has, after one tick of \<open>updateGameObjects\<close>, a position with
  \<open>0 \<le> x < width\<close> and \<open>0 \<le> y < height\<close>, whatever the other objects are. This
  covers every large positive value. For the ship the velocity added is the one the tick
  computes. The asteroid at index \<open>i\<close> of the result is the one at index \<open>i\<close> of the
  input; the bullet at index \<open>i\<close> of the result is the one at index \<open>i\<close> among the input
  bullets that outlive the tick.
\<close>

theorem updateGameObjects_wraps_positions:
  assumes "0 < width" and "0 < height"
  shows "(- width \<le> x (position (ship s)) + x (velocity (ship (updateGameObjects s width height))) \<and>
          - height \<le> y (position (ship s)) + y (velocity (ship (updateGameObjects s width height)))
            \<longrightarrow> inArena (ship (updateGameObjects s width height)) width height) \<and>
         length (asteroids (updateGameObjects s width height)) = length (asteroids s) \<and>
         (\<forall>i < length (asteroids s).
            preWrapAbove (asteroids s ! i) width height
              \<longrightarrow> inArena (asteroids (updateGameObjects s width height) ! i) width height) \<and>
         length (bullets (updateGameObjects s width height)) =
           length (filter (\<lambda>b. 0 < lifespan b - 1) (bullets s)) \<and>
         (\<forall>i < length (filter (\<lambda>b. 0 < lifespan b - 1) (bullets s)).
            preWrapAbove (filter (\<lambda>b. 0 < lifespan b - 1) (bullets s) ! i) width height
              \<longrightarrow> inArena (bullets (updateGameObjects s width height) ! i) width height)"
proof (intro conjI allI impI)
  assume "- width \<le> x (position (ship s)) + x (velocity (ship (updateGameObjects s width height))) \<and>
          - height \<le> y (position (ship s)) + y (velocity (ship (updateGameObjects s width height)))"
  then show "inArena (ship (updateGameObjects s width height)) width height"
    using assms updateShip_inArena [of width height "ship s"]
    by (simp add: updateGameObjects_def Let_def)
next
  show "length (asteroids (updateGameObjects s width height)) = length (asteroids s)"
    by (simp add: updateGameObjects_maps_asteroids)
next
  fix i
  assume "i < length (asteroids s)" and "preWrapAbove (asteroids s ! i) width height"
  then show "inArena (asteroids (updateGameObjects s width height) ! i) width height"
    using assms by (simp add: updateGameObjects_maps_asteroids updateAsteroid_inArena)
next
  show "length (bullets (updateGameObjects s width height)) =
      length (filter (\<lambda>b. 0 < lifespan b - 1) (bullets s))"
    by (simp add: updateGameObjects_keeps_bullets)
next
  fix i
  assume "i < length (filter (\<lambda>b. 0 < lifespan b - 1) (bullets s))"
    and "preWrapAbove (filter (\<lambda>b. 0 < lifespan b - 1) (bullets s) ! i) width height"
  then show "inArena (bullets (updateGameObjects s width height) ! i) width height"
    using assms by (simp add: updateGameObjects_keeps_bullets updateBullet_inArena)
qed

lemma mixed_state_kept:
  "filter (\<lambda>b. 0 < lifespan b - 1) (bullets mixed_state) =
     [\<lparr>position = \<lparr>x = - 2000, y = 0\<rparr>, velocity = \<lparr>x = 7, y = 0\<rparr>,
       rotation = 0, size' = 2, lifespan = 50\<rparr>,
      \<lparr>position = \<lparr>x = 795, y = 300\<rparr>, velocity = \<lparr>x = 7, y = 0\<rparr>,
       rotation = 0, size' = 2, lifespan = 60\<rparr>]"
  by (simp add: mixed_state_def)

lemma mixed_state_asteroids:
  "asteroids mixed_state ! 1 =
     \<lparr>position = \<lparr>x = - 3, y = 5\<rparr>, velocity = \<lparr>x = - 1, y = - 10\<rparr>,
      rotation = 0, size' = 30, vertices = []\<rparr>"
  "length (asteroids mixed_state) = 2"
  "\<not> preWrapAbove (asteroids mixed_state ! 0) 800 600"
  by (simp_all add: mixed_state_def preWrapAbove_def)

text \<open>
  The amended C1 at a state where an asteroid and a bullet far outside the arena stand
  beside objects about to cross an edge: the latter are wrapped into the arena.
\<close>

theorem updateGameObjects_wraps_positions_witness:
  "(0::real) < 800 \<and> (0::real) < 600 \<and>
   \<not> preWrapAbove (asteroids mixed_state ! 0) 800 600 \<and>
   preWrapAbove (asteroids mixed_state ! 1) 800 600 \<and>
   inArena (asteroids (updateGameObjects mixed_state 800 600) ! 1) 800 600 \<and>
   length (asteroids (updateGameObjects mixed_state 800 600)) = 2 \<and>
   length (bullets (updateGameObjects mixed_state 800 600)) = 2 \<and>
   preWrapAbove (filter (\<lambda>b. 0 < lifespan b - 1) (bullets mixed_state) ! 1) 800 600 \<and>
   inArena (bullets (updateGameObjects mixed_state 800 600) ! 1) 800 600 \<and>
   velocity (ship (updateGameObjects mixed_state 800 600)) = \<lparr>x = 0, y = 0\<rparr> \<and>
   inArena (ship (updateGameObjects mixed_state 800 600)) 800 600"
proof -
  have v: "velocity (ship (updateGameObjects mixed_state 800 600)) = \<lparr>x = 0, y = 0\<rparr>"
    by (simp add: mixed_state_def updateGameObjects_def updateShip_def thrustAndFriction_def
        magnitude_def)
  have ps: "- 800 \<le> x (position (ship mixed_state)) + x (velocity (ship (updateGameObjects mixed_state 800 600))) \<and>
            - 600 \<le> y (position (ship mixed_state)) + y (velocity (ship (updateGameObjects mixed_state 800 600)))"
    unfolding v by (simp add: mixed_state_def)
  have pa: "preWrapAbove (asteroids mixed_state ! 1) 800 600"
    unfolding mixed_state_asteroids by (simp add: preWrapAbove_def)
  have pb: "preWrapAbove (filter (\<lambda>b. 0 < lifespan b - 1) (bullets mixed_state) ! 1) 800 600"
    unfolding mixed_state_kept by (simp add: preWrapAbove_def)
  have ia: "(1::nat) < length (asteroids mixed_state)"
    unfolding mixed_state_asteroids by simp
  have ib: "(1::nat) < length (filter (\<lambda>b. 0 < lifespan b - 1) (bullets mixed_state))"
    and lb: "length (filter (\<lambda>b. 0 < lifespan b - 1) (bullets mixed_state)) = 2"
    unfolding mixed_state_kept by simp_all
  note wraps = updateGameObjects_wraps_positions [of 800 600 mixed_state]
  have dims: "(0::real) < 800" "(0::real) < 600" by simp_all
  from wraps [OF dims] ps have c_ship: "inArena (ship (updateGameObjects mixed_state 800 600)) 800 600"
    by blast
  from wraps [OF dims] ia pa
  have c_ast: "inArena (asteroids (updateGameObjects mixed_state 800 600) ! 1) 800 600"
    by blast
  from wraps [OF dims] ib pb
  have c_bul: "inArena (bullets (updateGameObjects mixed_state 800 600) ! 1) 800 600"
    by blast
  from wraps [OF dims] lb
  have c_len: "length (asteroids (updateGameObjects mixed_state 800 600)) = 2 \<and>
      length (bullets (updateGameObjects mixed_state 800 600)) = 2"
    unfolding mixed_state_asteroids by simp
  from dims c_ship c_ast c_bul c_len pa pb v mixed_state_asteroids(3) show ?thesis by blast
qed

subsection \<open>The collision resolver, field by field\<close>

lemma filterAsteroids_eq:
  "filterAsteroids bs as sc =
     (filter (\<lambda>a. \<not> hitByBullet bs a) as,
      sc + 100 * real (length (filter (hitByBullet bs) as)))"
  by (induction as arbitrary: sc) (simp_all add: Let_def)

lemma length_createAsteroids: "length (fst (createAsteroids rnd k n w h)) = n"
  by (induction n arbitrary: k) (simp_all add: Let_def case_prod_beta)

lemma handleCollisions_lives:
  "lives (fst (handleCollisions rnd k s)) = (if hasCollision s then lives s - 1 else lives s)"
  by (simp add: handleCollisions_def Let_def split: prod.splits)

lemma handleCollisions_gameOver:
  "gameOver (fst (handleCollisions rnd k s)) = (hasCollision s \<and> lives s - 1 \<le> 0)"
  by (auto simp add: handleCollisions_def Let_def split: prod.splits)

lemma handleCollisions_ship:
  "ship (fst (handleCollisions rnd k s)) =
     (if hasCollision s \<and> \<not> lives s - 1 \<le> 0
      then (ship s)\<lparr>position := \<lparr>x = 400, y = 300\<rparr>, velocity := \<lparr>x = 0, y = 0\<rparr>, rotation := 0\<rparr>
      else ship s)"
  by (simp add: handleCollisions_def Let_def split: prod.splits)

lemma handleCollisions_score:
  "score (fst (handleCollisions rnd k s)) =
     score s + 100 * real (length (filter (hitByBullet (bullets s)) (asteroids s)))"
  by (simp add: handleCollisions_def filterAsteroids_eq Let_def split: prod.splits)

lemma handleCollisions_bullets:
  "bullets (fst (handleCollisions rnd k s)) = bullets s"
  by (simp add: handleCollisions_def Let_def split: prod.splits)

lemma handleCollisions_asteroids:
  "asteroids (fst (handleCollisions rnd k s)) =
     (if filter (\<lambda>a. \<not> hitByBullet (bullets s) a) (asteroids s) = []
      then fst (createAsteroids rnd k 5 800 600)
      else filter (\<lambda>a. \<not> hitByBullet (bullets s) a) (asteroids s))"
  by (simp add: handleCollisions_def filterAsteroids_eq Let_def split: prod.splits)

lemma same_place_collides:
  assumes "position a = position obj" and "0 < size' obj + size' a"
  shows "checkCollision obj a"
  using assms by (simp add: checkCollision_def)

subsection \<open>Ship against asteroid\<close>

text \<open>
  C3: in every call of \<open>handleCollisions\<close>, a ship that collides with some asteroid
  loses one life. If no life is left, \<open>gameOver\<close> is set and the position, velocity
  and rotation of the ship stay as they are; otherwise the ship is put at (400, 300) with
  velocity (0, 0) and rotation 0, and \<open>gameOver\<close> is false. A ship at the exact
  position of an asteroid collides with it when the two sizes add up to a positive number
  (the factory gives a ship size 20 and an asteroid at least 20): with 3 lives the call
  leaves 2 and resets the ship, with 1 life it leaves 0 and sets \<open>gameOver\<close>.
\<close>

theorem handleCollisions_ship_hit:
  "(hasCollision s \<longrightarrow>
      lives (fst (handleCollisions rnd k s)) = lives s - 1 \<and>
      (lives s - 1 \<le> 0 \<longrightarrow>
         gameOver (fst (handleCollisions rnd k s)) \<and>
         position (ship (fst (handleCollisions rnd k s))) = position (ship s) \<and>
         velocity (ship (fst (handleCollisions rnd k s))) = velocity (ship s) \<and>
         rotation (ship (fst (handleCollisions rnd k s))) = rotation (ship s)) \<and>
      (\<not> lives s - 1 \<le> 0 \<longrightarrow>
         \<not> gameOver (fst (handleCollisions rnd k s)) \<and>
         position (ship (fst (handleCollisions rnd k s))) = \<lparr>x = 400, y = 300\<rparr> \<and>
         velocity (ship (fst (handleCollisions rnd k s))) = \<lparr>x = 0, y = 0\<rparr> \<and>
         rotation (ship (fst (handleCollisions rnd k s))) = 0)) \<and>
   ((\<exists>a \<in> set (asteroids s). position a = position (ship s) \<and> 0 < size' (ship s) + size' a)
      \<longrightarrow>
      (lives s = 3 \<longrightarrow>
         lives (fst (handleCollisions rnd k s)) = 2 \<and>
         position (ship (fst (handleCollisions rnd k s))) = \<lparr>x = 400, y = 300\<rparr> \<and>
         velocity (ship (fst (handleCollisions rnd k s))) = \<lparr>x = 0, y = 0\<rparr> \<and>
         rotation (ship (fst (handleCollisions rnd k s))) = 0 \<and>
         \<not> gameOver (fst (handleCollisions rnd k s))) \<and>
      (lives s = 1 \<longrightarrow>
         lives (fst (handleCollisions rnd k s)) = 0 \<and>
         gameOver (fst (handleCollisions rnd k s))))"
proof (intro conjI impI)
  assume "\<exists>a \<in> set (asteroids s). position a = position (ship s) \<and> 0 < size' (ship s) + size' a"
  then have hit: "hasCollision s"
    by (auto simp: hasCollision_def list_ex_iff intro: same_place_collides)
  { assume "lives s = 3"
    with hit show "lives (fst (handleCollisions rnd k s)) = 2"
      and "position (ship (fst (handleCollisions rnd k s))) = \<lparr>x = 400, y = 300\<rparr>"
      and "velocity (ship (fst (handleCollisions rnd k s))) = \<lparr>x = 0, y = 0\<rparr>"
      and "rotation (ship (fst (handleCollisions rnd k s))) = 0"
      and "\<not> gameOver (fst (handleCollisions rnd k s))"
      by (simp_all add: handleCollisions_lives handleCollisions_ship handleCollisions_gameOver) }
  { assume "lives s = 1"
    with hit show "lives (fst (handleCollisions rnd k s)) = 0"
      and "gameOver (fst (handleCollisions rnd k s))"
      by (simp_all add: handleCollisions_lives handleCollisions_gameOver) }
qed (simp_all add: handleCollisions_lives handleCollisions_ship handleCollisions_gameOver)

text \<open>C3 at a ship on an asteroid, once with three lives and once with one.\<close>

theorem handleCollisions_ship_hit_witness:
  "hasCollision (ship_on_asteroid 3) \<and> hasCollision (ship_on_asteroid 1) \<and>
   lives (fst (handleCollisions half_random 0 (ship_on_asteroid 3))) = 2 \<and>
   \<not> gameOver (fst (handleCollisions half_random 0 (ship_on_asteroid 3))) \<and>
   position (ship (fst (handleCollisions half_random 0 (ship_on_asteroid 3)))) = \<lparr>x = 400, y = 300\<rparr> \<and>
   velocity (ship (fst (handleCollisions half_random 0 (ship_on_asteroid 3)))) = \<lparr>x = 0, y = 0\<rparr> \<and>
   rotation (ship (fst (handleCollisions half_random 0 (ship_on_asteroid 3)))) = 0 \<and>
   lives (fst (handleCollisions half_random 0 (ship_on_asteroid 1))) = 0 \<and>
   gameOver (fst (handleCollisions half_random 0 (ship_on_asteroid 1))) \<and>
   position (ship (fst (handleCollisions half_random 0 (ship_on_asteroid 1)))) = \<lparr>x = 100, y = 200\<rparr> \<and>
   velocity (ship (fst (handleCollisions half_random 0 (ship_on_asteroid 1)))) = \<lparr>x = 3, y = - 4\<rparr> \<and>
   rotation (ship (fst (handleCollisions half_random 0 (ship_on_asteroid 1)))) = 1"
proof -
  have h3: "hasCollision (ship_on_asteroid 3)" and h1: "hasCollision (ship_on_asteroid 1)"
    by (simp_all add: hasCollision_def checkCollision_def ship_on_asteroid_def)
  have l3: "lives (ship_on_asteroid 3) = 3" and l1: "lives (ship_on_asteroid 1) = 1"
    and s1: "ship (ship_on_asteroid 1) =
       \<lparr>position = \<lparr>x = 100, y = 200\<rparr>, velocity = \<lparr>x = 3, y = - 4\<rparr>,
        rotation = 1, size' = 20, thrusting = True\<rparr>"
    by (simp_all add: ship_on_asteroid_def)
  from handleCollisions_ship_hit [of "ship_on_asteroid 3" half_random 0]
    handleCollisions_ship_hit [of "ship_on_asteroid 1" half_random 0]
    h3 h1 l3 l1 s1
  show ?thesis by simp
qed

subsection \<open>The collision test without the square root\<close>

lemma sqrt_less_iff_square:
  assumes "0 \<le> r"
  shows "sqrt d < r \<longleftrightarrow> d < r\<^sup>2"
proof -
  have "sqrt d < r \<longleftrightarrow> sqrt d < sqrt (r\<^sup>2)" using assms by simp
  also have "\<dots> \<longleftrightarrow> d < r\<^sup>2" by (rule real_sqrt_less_iff)
  finally show ?thesis .
qed

lemma checkCollision_squared:
  assumes "0 \<le> size' obj + size' a"
  shows "checkCollision obj a \<longleftrightarrow>
           (x (position obj) - x (position a))\<^sup>2 + (y (position obj) - y (position a))\<^sup>2
             < (size' obj + size' a)\<^sup>2"
  using assms by (simp add: checkCollision_def sqrt_less_iff_square)

subsection \<open>The incoming game-over flag\<close>

lemma handleCollisions_ignores_flag:
  "handleCollisions rnd k (s\<lparr>gameOver := b\<rparr>) = handleCollisions rnd k s"
  by (simp add: handleCollisions_def hasCollision_def Let_def case_prod_beta)

text \<open>
  C9: \<open>handleCollisions\<close> does not read the incoming \<open>gameOver\<close> flag. From a state
  with \<open>gameOver = true\<close> in which the ship collides with no asteroid, or in which a
  life is left after the decrement, the returned state has \<open>gameOver = false\<close>; and the
  result of the call is the same whatever the incoming flag is.
\<close>

theorem handleCollisions_recomputes_gameOver:
  "(gameOver s \<and> (\<not> hasCollision s \<or> 0 < lives s - 1)
      \<longrightarrow> \<not> gameOver (fst (handleCollisions rnd k s))) \<and>
   handleCollisions rnd k (s\<lparr>gameOver := b\<rparr>) = handleCollisions rnd k s"
  by (auto simp add: handleCollisions_gameOver handleCollisions_ignores_flag)

text \<open>C9 at a finished game with a clear ship, and at a hit that leaves two lives.\<close>

theorem handleCollisions_recomputes_gameOver_witness:
  "gameOver over_but_clear \<and> \<not> hasCollision over_but_clear \<and>
   \<not> gameOver (fst (handleCollisions half_random 0 over_but_clear)) \<and>
   gameOver (ship_on_asteroid 3\<lparr>gameOver := True\<rparr>) \<and>
   hasCollision (ship_on_asteroid 3\<lparr>gameOver := True\<rparr>) \<and>
   0 < lives (ship_on_asteroid 3\<lparr>gameOver := True\<rparr>) - 1 \<and>
   \<not> gameOver (fst (handleCollisions half_random 0 (ship_on_asteroid 3\<lparr>gameOver := True\<rparr>)))"
proof -
  have a: "gameOver over_but_clear" and b: "\<not> hasCollision over_but_clear"
    by (simp_all add: over_but_clear_def hasCollision_def checkCollision_squared)
  have c: "gameOver (ship_on_asteroid 3\<lparr>gameOver := True\<rparr>)"
    and d: "hasCollision (ship_on_asteroid 3\<lparr>gameOver := True\<rparr>)"
    and e: "0 < lives (ship_on_asteroid 3\<lparr>gameOver := True\<rparr>) - 1"
    by (simp_all add: ship_on_asteroid_def hasCollision_def checkCollision_def)
  from handleCollisions_recomputes_gameOver [of over_but_clear half_random 0]
    handleCollisions_recomputes_gameOver [of "ship_on_asteroid 3\<lparr>gameOver := True\<rparr>" half_random 0]
    a b c d e
  show ?thesis by simp
qed

subsection \<open>The motion integrator, field by field\<close>

lemma updateGameObjects_score: "score (updateGameObjects s w h) = score s"
  by (simp add: updateGameObjects_def Let_def)

lemma updateGameObjects_lives: "lives (updateGameObjects s w h) = lives s"
  by (simp add: updateGameObjects_def Let_def)

lemma updateGameObjects_gameOver: "gameOver (updateGameObjects s w h) = gameOver s"
  by (simp add: updateGameObjects_def Let_def)

lemma updateGameObjects_asteroids:
  "asteroids (updateGameObjects s w h) = map (updateAsteroid w h) (asteroids s)"
  by (simp add: updateGameObjects_def Let_def)

lemma updateGameObjects_bullets:
  "bullets (updateGameObjects s w h) =
     filter (\<lambda>b. 0 < lifespan b) (map (updateBullet w h) (bullets s))"
  by (simp add: updateGameObjects_def Let_def)

lemma updateGameObjects_ship:
  "ship (updateGameObjects s w h) = updateShip (ship s) w h"
  by (simp add: updateGameObjects_def Let_def)

subsection \<open>The driver after game over\<close>

lemma drawGameThrows_updateGameObjects:
  "drawGameThrows (updateGameObjects (s\<lparr>ship := sh\<rparr>) w h) = drawGameThrows s"
  by (simp add: drawGameThrows_def updateGameObjects_asteroids list_ex_iff updateAsteroid_def
      Let_def)

lemma gameLoopStep_over:
  "gameOver s \<Longrightarrow> gameLoopStep rnd k keys dt s =
     (updateGameObjects (s\<lparr>ship := steerShip keys dt (ship s)\<rparr>) 800 600, k)"
  by (simp add: gameLoopStep_def CANVAS_WIDTH_def CANVAS_HEIGHT_def)

lemma gameLoopUpdater_over:
  "gameOver s \<Longrightarrow> gameLoopUpdater rnd k keys dt s =
     (if drawGameThrows s then None
      else Some (updateGameObjects (s\<lparr>ship := steerShip keys dt (ship s)\<rparr>) 800 600, k))"
  by (simp add: gameLoopUpdater_def gameLoopStep_over drawGameThrows_updateGameObjects)

text \<open>
  C2, as stated, fails: the updater calls \<open>updateGameObjects\<close> on every frame and only
  skips \<open>handleCollisions\<close> when the game is over, so objects keep moving. From a state
  with \<open>gameOver = true\<close> an asteroid at (500, 400) with velocity (1, 0) is at (501, 400)
  in the state the updater returns.
\<close>

theorem game_over_motion_counterexample:
  "gameOver game_over_state \<and>
   map position (asteroids game_over_state) = [\<lparr>x = 500, y = 400\<rparr>] \<and>
   map_option (\<lambda>r. map position (asteroids (fst r)))
     (gameLoopUpdater half_random 0 {} 1 game_over_state) = Some [\<lparr>x = 501, y = 400\<rparr>]"
proof -
  have over: "gameOver game_over_state" by (simp add: game_over_state_def)
  have draws: "\<not> drawGameThrows game_over_state"
    by (simp add: game_over_state_def drawGameThrows_def)
  have "map position (asteroids (updateGameObjects
      (game_over_state\<lparr>ship := steerShip {} 1 (ship game_over_state)\<rparr>) 800 600))
      = [\<lparr>x = 501, y = 400\<rparr>]"
    by (simp add: game_over_state_def updateGameObjects_asteroids updateAsteroid_def js_rem_def)
  then show ?thesis
    using over draws by (simp add: gameLoopUpdater_over [OF over]) (simp add: game_over_state_def)
qed

text \<open>
  C2, amended: from a state with \<open>gameOver = true\<close>, a step of the driver resolves no
  collision. When every asteroid has a vertex, so that the draw succeeds, the updater
  returns exactly the result of the motion integrator at 800 by 600 on the state with the
  steered ship, and consumes no random draw; when some asteroid has no vertex the draw
  raises and no state is returned. In every returned state score and lives are unchanged,
  \<open>gameOver\<close> stays true, and no asteroid is removed or regenerated (the collection
  keeps its length, sizes and vertices). Positions, the ship's velocity and rotation,
  asteroid rotations and bullet life spans still change as the integrator prescribes.
\<close>

theorem gameLoopUpdater_when_over:
  assumes "gameOver s"
  shows "((\<forall>a \<in> set (asteroids s). vertices a \<noteq> []) \<longrightarrow>
            gameLoopUpdater rnd k keys dt s =
              Some (updateGameObjects (s\<lparr>ship := steerShip keys dt (ship s)\<rparr>) 800 600, k)) \<and>
         ((\<exists>a \<in> set (asteroids s). vertices a = []) \<longrightarrow>
            gameLoopUpdater rnd k keys dt s = None) \<and>
         (\<forall>s' k'. gameLoopUpdater rnd k keys dt s = Some (s', k') \<longrightarrow>
            k' = k \<and> score s' = score s \<and> lives s' = lives s \<and> gameOver s' \<and>
            length (asteroids s') = length (asteroids s) \<and>
            map size' (asteroids s') = map size' (asteroids s) \<and>
            map vertices (asteroids s') = map vertices (asteroids s))"
proof (intro conjI allI impI)
  assume "\<forall>a \<in> set (asteroids s). vertices a \<noteq> []"
  then have "\<not> drawGameThrows s" by (simp add: drawGameThrows_def list_ex_iff)
  then show "gameLoopUpdater rnd k keys dt s =
      Some (updateGameObjects (s\<lparr>ship := steerShip keys dt (ship s)\<rparr>) 800 600, k)"
    by (simp add: gameLoopUpdater_over [OF assms])
next
  assume "\<exists>a \<in> set (asteroids s). vertices a = []"
  then have "drawGameThrows s" by (simp add: drawGameThrows_def list_ex_iff)
  then show "gameLoopUpdater rnd k keys dt s = None"
    by (simp add: gameLoopUpdater_over [OF assms])
next
  fix s' k'
  assume "gameLoopUpdater rnd k keys dt s = Some (s', k')"
  then have r: "s' = updateGameObjects (s\<lparr>ship := steerShip keys dt (ship s)\<rparr>) 800 600"
    and c: "k' = k"
    by (simp_all add: gameLoopUpdater_over [OF assms] split: if_splits)
  show "k' = k" by (rule c)
  show "score s' = score s" "lives s' = lives s"
    unfolding r by (simp_all add: updateGameObjects_score updateGameObjects_lives)
  show "gameOver s'"
    unfolding r using assms by (simp add: updateGameObjects_gameOver)
  show "length (asteroids s') = length (asteroids s)"
    unfolding r by (simp add: updateGameObjects_asteroids)
  show "map size' (asteroids s') = map size' (asteroids s)"
    "map vertices (asteroids s') = map vertices (asteroids s)"
    unfolding r by (simp_all add: updateGameObjects_asteroids updateAsteroid_def comp_def)
qed

text \<open>The amended C2 at a finished game with the left arrow held.\<close>

theorem gameLoopUpdater_when_over_witness:
  "gameOver game_over_state \<and>
   list_all (\<lambda>a. vertices a \<noteq> []) (asteroids game_over_state) \<and>
   gameLoopUpdater half_random 0 {''ArrowLeft''} 1 game_over_state =
     Some (updateGameObjects
             (game_over_state\<lparr>ship := steerShip {''ArrowLeft''} 1 (ship game_over_state)\<rparr>)
             800 600, 0) \<and>
   score (updateGameObjects
            (game_over_state\<lparr>ship := steerShip {''ArrowLeft''} 1 (ship game_over_state)\<rparr>)
            800 600) = 700 \<and>
   lives (updateGameObjects
            (game_over_state\<lparr>ship := steerShip {''ArrowLeft''} 1 (ship game_over_state)\<rparr>)
            800 600) = 0 \<and>
   gameOver (updateGameObjects
            (game_over_state\<lparr>ship := steerShip {''ArrowLeft''} 1 (ship game_over_state)\<rparr>)
            800 600) \<and>
   length (asteroids (updateGameObjects
            (game_over_state\<lparr>ship := steerShip {''ArrowLeft''} 1 (ship game_over_state)\<rparr>)
            800 600)) = 1"
proof -
  let ?s' = "updateGameObjects
      (game_over_state\<lparr>ship := steerShip {''ArrowLeft''} 1 (ship game_over_state)\<rparr>) 800 600"
  have g: "gameOver game_over_state" by (simp add: game_over_state_def)
  have vs: "\<forall>a \<in> set (asteroids game_over_state). vertices a \<noteq> []"
    by (simp add: game_over_state_def)
  have v: "score game_over_state = 700" "lives game_over_state = 0"
    "length (asteroids game_over_state) = 1"
    by (simp_all add: game_over_state_def)
  note step = gameLoopUpdater_when_over [OF g, of half_random 0 "{''ArrowLeft''}" 1]
  from step vs have ret: "gameLoopUpdater half_random 0 {''ArrowLeft''} 1 game_over_state = Some (?s', 0)"
    by blast
  from step ret have "score ?s' = score game_over_state \<and> lives ?s' = lives game_over_state \<and>
      gameOver ?s' \<and> length (asteroids ?s') = length (asteroids game_over_state)"
    by blast
  then have vals: "score ?s' = 700 \<and> lives ?s' = 0 \<and> gameOver ?s' \<and> length (asteroids ?s') = 1"
    unfolding v .
  from vs have la: "list_all (\<lambda>a. vertices a \<noteq> []) (asteroids game_over_state)"
    by (simp add: list_all_iff)
  from g la ret vals show ?thesis by blast
qed

subsection \<open>Refilling the asteroid field\<close>

lemma createAsteroid_counter: "k \<le> snd (createAsteroid rnd k w h)"
  by (simp add: createAsteroid_def Let_def)

lemma createAsteroids_members:
  "a \<in> set (fst (createAsteroids rnd k n w h)) \<Longrightarrow> \<exists>j\<ge>k. a = fst (createAsteroid rnd j w h)"
proof (induction n arbitrary: k)
  case 0
  then show ?case by simp
next
  case (Suc n)
  let ?k1 = "snd (createAsteroid rnd k w h)"
  from Suc.prems have "a = fst (createAsteroid rnd k w h) \<or>
      a \<in> set (fst (createAsteroids rnd ?k1 n w h))"
    by (simp add: Let_def case_prod_beta)
  then show ?case
  proof
    assume "a = fst (createAsteroid rnd k w h)"
    then show ?thesis by blast
  next
    assume "a \<in> set (fst (createAsteroids rnd ?k1 n w h))"
    then obtain j where "?k1 \<le> j" and "a = fst (createAsteroid rnd j w h)"
      using Suc.IH by blast
    moreover have "k \<le> ?k1" by (rule createAsteroid_counter)
    ultimately have "k \<le> j \<and> a = fst (createAsteroid rnd j w h)" by simp
    then show ?thesis by blast
  qed
qed

text \<open>
  C4: after every call of \<open>handleCollisions\<close> the asteroid collection is not empty. If
  no asteroid survives the bullets (also when the input has none), the collection is the
  five asteroids that \<open>createAsteroid(800, 600)\<close> generates in sequence from the random
  source; otherwise it is the list of survivors, a non-empty part of the input.
\<close>

theorem handleCollisions_asteroids_nonempty:
  "asteroids (fst (handleCollisions rnd k s)) \<noteq> [] \<and>
   (filter (\<lambda>a. \<not> hitByBullet (bullets s) a) (asteroids s) = [] \<longrightarrow>
      asteroids (fst (handleCollisions rnd k s)) = fst (createAsteroids rnd k 5 800 600) \<and>
      length (asteroids (fst (handleCollisions rnd k s))) = 5 \<and>
      (\<forall>a \<in> set (asteroids (fst (handleCollisions rnd k s))).
         \<exists>j\<ge>k. a = fst (createAsteroid rnd j 800 600))) \<and>
   (filter (\<lambda>a. \<not> hitByBullet (bullets s) a) (asteroids s) \<noteq> [] \<longrightarrow>
      asteroids (fst (handleCollisions rnd k s)) =
        filter (\<lambda>a. \<not> hitByBullet (bullets s) a) (asteroids s) \<and>
      set (asteroids (fst (handleCollisions rnd k s))) \<subseteq> set (asteroids s))"
proof (cases "filter (\<lambda>a. \<not> hitByBullet (bullets s) a) (asteroids s) = []")
  case True
  then have eq: "asteroids (fst (handleCollisions rnd k s)) = fst (createAsteroids rnd k 5 800 600)"
    by (simp add: handleCollisions_asteroids)
  have len: "length (fst (createAsteroids rnd k 5 800 600)) = 5"
    by (rule length_createAsteroids)
  then have "fst (createAsteroids rnd k 5 800 600) \<noteq> []" by auto
  with True eq len show ?thesis
    by (auto dest: createAsteroids_members)
next
  case False
  then have "asteroids (fst (handleCollisions rnd k s)) =
      filter (\<lambda>a. \<not> hitByBullet (bullets s) a) (asteroids s)"
    by (simp add: handleCollisions_asteroids)
  with False show ?thesis by auto
qed

lemma one_bullet_hits_both:
  "filter (\<lambda>a. \<not> hitByBullet (bullets one_bullet_two_asteroids) a)
     (asteroids one_bullet_two_asteroids) = []"
  by (simp add: one_bullet_two_asteroids_def hitByBullet_def checkCollision_squared)

lemma over_but_clear_keeps:
  "filter (\<lambda>a. \<not> hitByBullet (bullets over_but_clear) a) (asteroids over_but_clear)
     = asteroids over_but_clear"
  by (simp add: over_but_clear_def hitByBullet_def)

text \<open>C4 at a field that is cleared and at a field that is untouched.\<close>

theorem handleCollisions_asteroids_nonempty_witness:
  "filter (\<lambda>a. \<not> hitByBullet (bullets one_bullet_two_asteroids) a)
     (asteroids one_bullet_two_asteroids) = [] \<and>
   length (asteroids (fst (handleCollisions half_random 0 one_bullet_two_asteroids))) = 5 \<and>
   asteroids (fst (handleCollisions half_random 0 one_bullet_two_asteroids)) \<noteq> [] \<and>
   filter (\<lambda>a. \<not> hitByBullet (bullets over_but_clear) a) (asteroids over_but_clear) \<noteq> [] \<and>
   asteroids (fst (handleCollisions half_random 0 over_but_clear)) = asteroids over_but_clear"
proof -
  have ne: "asteroids over_but_clear \<noteq> []" by (simp add: over_but_clear_def)
  note refill = handleCollisions_asteroids_nonempty [of half_random 0 one_bullet_two_asteroids]
  note keep = handleCollisions_asteroids_nonempty [of half_random 0 over_but_clear]
  from refill one_bullet_hits_both
  have c1: "length (asteroids (fst (handleCollisions half_random 0 one_bullet_two_asteroids))) = 5 \<and>
      asteroids (fst (handleCollisions half_random 0 one_bullet_two_asteroids)) \<noteq> []"
    by blast
  from keep [unfolded over_but_clear_keeps] ne
  have c2: "asteroids (fst (handleCollisions half_random 0 over_but_clear)) = asteroids over_but_clear"
    by blast
  from c1 c2 one_bullet_hits_both ne show ?thesis
    unfolding over_but_clear_keeps by blast
qed

subsection \<open>Score and bullets\<close>

text \<open>
  C8: every call of \<open>handleCollisions\<close> returns the input score plus 100 for each
  asteroid that some bullet hits, however many bullets hit it, so the score never
  decreases, in the resolver and in a whole step of the driver; and the call returns the
  bullet collection it was given, so a bullet survives its hit and may destroy several
  asteroids.
\<close>

theorem handleCollisions_score_and_bullets:
  "score (fst (handleCollisions rnd k s)) =
     score s + 100 * real (length (filter (hitByBullet (bullets s)) (asteroids s))) \<and>
   score s \<le> score (fst (handleCollisions rnd k s)) \<and>
   bullets (fst (handleCollisions rnd k s)) = bullets s \<and>
   score s \<le> score (fst (gameLoopStep rnd k keys dt s))"
  by (simp add: handleCollisions_score handleCollisions_bullets gameLoopStep_def
      updateGameObjects_score Let_def)

text \<open>C8 where one bullet destroys two asteroids and stays.\<close>

theorem handleCollisions_score_and_bullets_witness:
  "length (filter (hitByBullet (bullets one_bullet_two_asteroids))
     (asteroids one_bullet_two_asteroids)) = 2 \<and>
   score one_bullet_two_asteroids = 300 \<and>
   score (fst (handleCollisions half_random 0 one_bullet_two_asteroids)) = 500 \<and>
   bullets (fst (handleCollisions half_random 0 one_bullet_two_asteroids)) =
     bullets one_bullet_two_asteroids \<and>
   length (bullets (fst (handleCollisions half_random 0 one_bullet_two_asteroids))) = 1"
proof -
  have n: "length (filter (hitByBullet (bullets one_bullet_two_asteroids))
     (asteroids one_bullet_two_asteroids)) = 2"
    by (simp add: one_bullet_two_asteroids_def hitByBullet_def checkCollision_squared)
  have v: "score one_bullet_two_asteroids = 300" "length (bullets one_bullet_two_asteroids) = 1"
    by (simp_all add: one_bullet_two_asteroids_def)
  from handleCollisions_score_and_bullets [of half_random 0 one_bullet_two_asteroids "{}" 1] n v
  show ?thesis by simp
qed

subsection \<open>What the integrator leaves alone\<close>

text \<open>
  C10: \<open>updateGameObjects\<close> leaves score, lives and \<open>gameOver\<close> unchanged, and the
  ship's size, thrusting flag and rotation, every asteroid's size, vertices and velocity,
  and the size, velocity and rotation of every bullet it keeps. The bullets it returns are
  the updated images of the input bullets whose life span exceeds 1, in order.
\<close>

theorem updateGameObjects_frame:
  "score (updateGameObjects s w h) = score s \<and>
   lives (updateGameObjects s w h) = lives s \<and>
   gameOver (updateGameObjects s w h) = gameOver s \<and>
   size' (ship (updateGameObjects s w h)) = size' (ship s) \<and>
   thrusting (ship (updateGameObjects s w h)) = thrusting (ship s) \<and>
   rotation (ship (updateGameObjects s w h)) = rotation (ship s) \<and>
   map size' (asteroids (updateGameObjects s w h)) = map size' (asteroids s) \<and>
   map vertices (asteroids (updateGameObjects s w h)) = map vertices (asteroids s) \<and>
   map velocity (asteroids (updateGameObjects s w h)) = map velocity (asteroids s) \<and>
   bullets (updateGameObjects s w h) =
     map (updateBullet w h) (filter (\<lambda>b. 0 < lifespan b - 1) (bullets s)) \<and>
   map size' (bullets (updateGameObjects s w h)) =
     map size' (filter (\<lambda>b. 0 < lifespan b - 1) (bullets s)) \<and>
   map velocity (bullets (updateGameObjects s w h)) =
     map velocity (filter (\<lambda>b. 0 < lifespan b - 1) (bullets s)) \<and>
   map rotation (bullets (updateGameObjects s w h)) =
     map rotation (filter (\<lambda>b. 0 < lifespan b - 1) (bullets s))"
proof -
  have b: "bullets (updateGameObjects s w h) =
     map (updateBullet w h) (filter (\<lambda>b. 0 < lifespan b - 1) (bullets s))"
    by (simp add: updateGameObjects_bullets filter_map comp_def updateBullet_def Let_def)
  have a: "map size' (asteroids (updateGameObjects s w h)) = map size' (asteroids s)"
    "map vertices (asteroids (updateGameObjects s w h)) = map vertices (asteroids s)"
    "map velocity (asteroids (updateGameObjects s w h)) = map velocity (asteroids s)"
    by (simp_all add: updateGameObjects_asteroids comp_def updateAsteroid_def Let_def)
  have sh: "size' (ship (updateGameObjects s w h)) = size' (ship s)"
    "thrusting (ship (updateGameObjects s w h)) = thrusting (ship s)"
    "rotation (ship (updateGameObjects s w h)) = rotation (ship s)"
    by (simp_all add: updateGameObjects_ship updateShip_def Let_def)
  have bf: "map size' (map (updateBullet w h) bs) = map size' bs"
    "map velocity (map (updateBullet w h) bs) = map velocity bs"
    "map rotation (map (updateBullet w h) bs) = map rotation bs" for bs
    by (simp_all add: comp_def updateBullet_def Let_def)
  show ?thesis
    unfolding b bf using a sh
    by (simp add: updateGameObjects_score updateGameObjects_lives updateGameObjects_gameOver)
qed

subsection \<open>Speed limit\<close>






subsection \<open>Bullet expiry\<close>

lemma lifespan_updateBullet: "lifespan (updateBullet w h b) = lifespan b - 1"
  by (simp add: updateBullet_def Let_def)

lemma lifespans_one_tick:
  "map lifespan (bullets (updateGameObjects s w h)) =
     filter (\<lambda>l. 0 < l) (map (\<lambda>b. lifespan b - 1) (bullets s))"
  by (simp add: updateGameObjects_bullets filter_map comp_def lifespan_updateBullet)

lemma lifespans_one_tick':
  "map lifespan (bullets (updateGameObjects s w h)) =
     filter (\<lambda>l. 0 < l) (map (\<lambda>l. l - 1) (map lifespan (bullets s)))"
  by (simp add: lifespans_one_tick comp_def)

lemma decrement_twice:
  "filter (\<lambda>l. 0 < l) (map (\<lambda>l. l - 1) (map (\<lambda>l. l - real (Suc n)) (filter (\<lambda>l. real (Suc n) < l) ls)))
     = map (\<lambda>l. l - real (Suc (Suc n))) (filter (\<lambda>l. real (Suc (Suc n)) < l) ls)"
  by (induction ls) auto

lemma lifespans_after_ticks:
  "map lifespan (bullets (ticks w h (Suc n) s)) =
     map (\<lambda>l. l - real (Suc n)) (filter (\<lambda>l. real (Suc n) < l) (map lifespan (bullets s)))"
proof (induction n)
  case 0
  show ?case
    by (simp add: lifespans_one_tick filter_map comp_def)
next
  case (Suc n)
  have "map lifespan (bullets (ticks w h (Suc (Suc n)) s)) =
      filter (\<lambda>l. 0 < l) (map (\<lambda>l. l - 1) (map lifespan (bullets (ticks w h (Suc n) s))))"
    by (simp only: ticks.simps lifespans_one_tick')
  also have "\<dots> = filter (\<lambda>l. 0 < l) (map (\<lambda>l. l - 1)
      (map (\<lambda>l. l - real (Suc n)) (filter (\<lambda>l. real (Suc n) < l) (map lifespan (bullets s)))))"
    by (simp only: Suc.IH)
  also have "\<dots> = map (\<lambda>l. l - real (Suc (Suc n)))
      (filter (\<lambda>l. real (Suc (Suc n)) < l) (map lifespan (bullets s)))"
    by (rule decrement_twice)
  finally show ?case .
qed

lemma count_after_ticks:
  "length (bullets (ticks w h (Suc n) s)) =
     length (filter (\<lambda>b. real (Suc n) < lifespan b) (bullets s))"
proof -
  have "length (bullets (ticks w h (Suc n) s)) = length (map lifespan (bullets (ticks w h (Suc n) s)))"
    by simp
  also have "\<dots> = length (filter (\<lambda>l. real (Suc n) < l) (map lifespan (bullets s)))"
    by (simp only: lifespans_after_ticks length_map)
  also have "\<dots> = length (filter (\<lambda>b. real (Suc n) < lifespan b) (bullets s))"
    by (simp add: filter_map comp_def)
  finally show ?thesis .
qed

text \<open>
  C6: in every call of \<open>updateGameObjects\<close> the life span of each bullet is decremented
  by exactly 1, and the bullets whose resulting life span is at most 0 are left out of the
  returned collection. After \<open>n + 1\<close> ticks exactly the bullets with a life span above
  \<open>n + 1\<close> remain. So a bullet with life span 1 is gone after one tick, and a bullet with
  life span 60 is present after each of the first 59 ticks and absent after tick 60.
\<close>

theorem bullet_lifespan_expiry:
  "map lifespan (bullets (updateGameObjects s w h)) =
     filter (\<lambda>l. 0 < l) (map (\<lambda>b. lifespan b - 1) (bullets s)) \<and>
   length (bullets (ticks w h (Suc n) s)) =
     length (filter (\<lambda>b. real (Suc n) < lifespan b) (bullets s)) \<and>
   (bullets s = [b] \<and> lifespan b = 1 \<longrightarrow> bullets (updateGameObjects s w h) = []) \<and>
   (bullets s = [b] \<and> lifespan b = 60 \<longrightarrow>
      (\<forall>m \<le> 59. length (bullets (ticks w h m s)) = 1) \<and> bullets (ticks w h 60 s) = [])"
proof (intro conjI impI)
  show "map lifespan (bullets (updateGameObjects s w h)) =
     filter (\<lambda>l. 0 < l) (map (\<lambda>b. lifespan b - 1) (bullets s))"
    by (rule lifespans_one_tick)
  show "length (bullets (ticks w h (Suc n) s)) =
     length (filter (\<lambda>b. real (Suc n) < lifespan b) (bullets s))"
    by (rule count_after_ticks)
next
  assume "bullets s = [b] \<and> lifespan b = 1"
  then show "bullets (updateGameObjects s w h) = []"
    by (simp add: updateGameObjects_bullets lifespan_updateBullet)
next
  assume one: "bullets s = [b] \<and> lifespan b = 60"
  show "\<forall>m \<le> 59. length (bullets (ticks w h m s)) = 1"
  proof (intro allI impI)
    fix m :: nat
    assume m: "m \<le> 59"
    show "length (bullets (ticks w h m s)) = 1"
    proof (cases m)
      case 0
      with one show ?thesis by simp
    next
      case (Suc k)
      with m have "real (Suc k) < 60" by simp
      with one Suc show ?thesis by (simp only: count_after_ticks) simp
    qed
  qed
  have "60 = Suc 59" by simp
  then have "length (bullets (ticks w h 60 s)) =
      length (filter (\<lambda>b. real (Suc 59) < lifespan b) (bullets s))"
    by (simp only: count_after_ticks)
  with one show "bullets (ticks w h 60 s) = []" by simp
qed

text \<open>C6 at a single bullet of life span 1, and at one of life span 60.\<close>

theorem bullet_lifespan_expiry_witness:
  "lifespan (hd (bullets (one_bullet_state 1))) = 1 \<and>
   bullets (updateGameObjects (one_bullet_state 1) 800 600) = [] \<and>
   lifespan (hd (bullets (one_bullet_state 60))) = 60 \<and>
   length (bullets (ticks 800 600 0 (one_bullet_state 60))) = 1 \<and>
   length (bullets (ticks 800 600 59 (one_bullet_state 60))) = 1 \<and>
   bullets (ticks 800 600 60 (one_bullet_state 60)) = []"
proof -
  let ?b = "\<lambda>n. \<lparr>position = \<lparr>x = 400, y = 300\<rparr>, velocity = \<lparr>x = 7, y = 0\<rparr>,
                  rotation = 0, size' = 2, lifespan = n\<rparr>"
  have b: "bullets (one_bullet_state n) = [?b n] \<and> lifespan (?b n) = n" for n
    by (simp add: one_bullet_state_def)
  note short = bullet_lifespan_expiry [of "one_bullet_state 1" 800 600 0 "?b 1"]
  note long = bullet_lifespan_expiry [of "one_bullet_state 60" 800 600 0 "?b 60"]
  from short b [of 1] have c1: "bullets (updateGameObjects (one_bullet_state 1) 800 600) = []"
    by blast
  from long b [of 60]
  have every: "\<forall>m \<le> 59. length (bullets (ticks 800 600 m (one_bullet_state 60))) = 1"
    and gone: "bullets (ticks 800 600 60 (one_bullet_state 60)) = []"
    by blast+
  have t0: "length (bullets (ticks 800 600 0 (one_bullet_state 60))) = 1"
    using every [rule_format, of 0] by simp
  have t59: "length (bullets (ticks 800 600 59 (one_bullet_state 60))) = 1"
    using every [rule_format, of 59] by simp
  from c1 gone t0 t59 b [of 1] b [of 60] show ?thesis by simp
qed

end
